theory Spec2Isabelle
  imports Main
begin

section \<open>JavaScript runtime pieces used by server.ts\<close>

text \<open>
  Strings are byte lists (\<open>string\<close>); the non-ASCII literals of the source are written as
  their UTF-8 bytes. A JavaScript \<open>Map\<close> iterates in insertion order and \<open>set\<close> on a key
  that is already present replaces the value where it stands, so a \<open>Map\<close> is an association
  list with that update.
\<close>

fun map_set :: "'k \<Rightarrow> 'v \<Rightarrow> ('k \<times> 'v) list \<Rightarrow> ('k \<times> 'v) list" where
  "map_set k v [] = [(k, v)]"
| "map_set k v ((k', v') # kvs) =
     (if k' = k then (k, v) # kvs else (k', v') # map_set k v kvs)"

definition map_has :: "('k \<times> 'v) list \<Rightarrow> 'k \<Rightarrow> bool" where
  "map_has m k = (map_of m k \<noteq> None)"

definition map_delete :: "'k \<Rightarrow> ('k \<times> 'v) list \<Rightarrow> ('k \<times> 'v) list" where
  "map_delete k m = filter (\<lambda>kv. fst kv \<noteq> k) m"

text \<open>
  \<open>s.split(sep)\<close> for a one-character separator: the pieces between all occurrences of
  the separator; the empty string gives one empty piece. \<open>s.split(sep, limit)\<close> computes
  the same pieces and keeps the first \<open>limit\<close> of them.
\<close>

fun split :: "char \<Rightarrow> string \<Rightarrow> string list" where
  "split sep [] = [[]]"
| "split sep (c # cs) =
     (if c = sep then [] # split sep cs
      else (case split sep cs of
              [] \<Rightarrow> [[c]]
            | p # ps \<Rightarrow> (c # p) # ps))"

definition split_limit :: "char \<Rightarrow> nat \<Rightarrow> string \<Rightarrow> string list" where
  "split_limit sep limit s = take limit (split sep s)"

text \<open>The decimal text of a non-negative integer, as a template literal prints it.\<close>

definition digit_char :: "nat \<Rightarrow> char" where
  "digit_char d = ''0123456789'' ! d"

function string_of_nat :: "nat \<Rightarrow> string" where
  "string_of_nat n =
     (if n < 10 then [digit_char n]
      else string_of_nat (n div 10) @ [digit_char (n mod 10)])"
  by pat_completeness auto
termination
  by (relation "measure id") auto

declare string_of_nat.simps [simp del]

section \<open>The in-memory event store\<close>

text \<open>
  \<open>InMemoryEventStore.events\<close> maps an event id to its message and stream id. The message
  type is left open. \<open>Date.now()\<close> and the text \<open>Math.random().toString(36).substring(2, 10)\<close>
  are inputs of \<open>generateEventId\<close>.
\<close>

type_synonym 'm event_store = "(string \<times> ('m \<times> string)) list"

definition generateEventId :: "string \<Rightarrow> nat \<Rightarrow> string \<Rightarrow> string" where
  "generateEventId streamId now rnd = streamId @ ''_'' @ string_of_nat now @ ''_'' @ rnd"

definition getStreamIdFromEventId :: "string \<Rightarrow> string" where
  "getStreamIdFromEventId eventId =
     (let parts = split (CHR ''_'') eventId
      in if length parts > 0 then hd parts else [])"

definition storeEvent ::
  "'m event_store \<Rightarrow> string \<Rightarrow> 'm \<Rightarrow> nat \<Rightarrow> string \<Rightarrow> string \<times> 'm event_store" where
  "storeEvent events streamId message now rnd =
     (let eventId = generateEventId streamId now rnd
      in (eventId, map_set eventId (message, streamId) events))"

text \<open>
  The loop of \<open>replayEventsAfter\<close> over the sorted entries, with its flag
  \<open>foundLastEvent\<close>; the result is the list of \<open>send\<close> calls in order.
\<close>

fun replay_loop ::
  "string \<Rightarrow> string \<Rightarrow> bool \<Rightarrow> (string \<times> ('m \<times> string)) list \<Rightarrow> (string \<times> 'm) list" where
  "replay_loop streamId lastEventId found [] = []"
| "replay_loop streamId lastEventId found ((eventId, (message, eventStreamId)) # rest) =
     (if eventStreamId \<noteq> streamId then replay_loop streamId lastEventId found rest
      else if eventId = lastEventId then replay_loop streamId lastEventId True rest
      else if found then (eventId, message) # replay_loop streamId lastEventId found rest
      else replay_loop streamId lastEventId found rest)"

text \<open>
  \<open>entries.sort((a, b) => a[0].localeCompare(b[0]))\<close>. The comparison of the runtime is
  a parameter \<open>cmp\<close>: a negative result puts the first argument first, a positive one the
  second, and zero leaves the two in the order they had. \<open>Array.prototype.sort\<close> is
  stable, and for a consistent comparison there is one such arrangement; inserting the
  entries from the right, each before the first entry that is not smaller, computes it.
\<close>

fun insort_by ::
  "(string \<Rightarrow> string \<Rightarrow> int) \<Rightarrow> string \<times> 'v \<Rightarrow> (string \<times> 'v) list \<Rightarrow> (string \<times> 'v) list" where
  "insort_by cmp x [] = [x]"
| "insort_by cmp x (y # ys) =
     (if cmp (fst x) (fst y) \<le> 0 then x # y # ys else y # insort_by cmp x ys)"

definition sort_by ::
  "(string \<Rightarrow> string \<Rightarrow> int) \<Rightarrow> (string \<times> 'v) list \<Rightarrow> (string \<times> 'v) list" where
  "sort_by cmp xs = foldr (insort_by cmp) xs []"

text \<open>
  \<open>replayEventsAfter\<close> returns the events sent and the string returned; its first
  argument is \<open>localeCompare\<close>. Every \<open>send\<close> is taken to return.
\<close>

definition replayEventsAfter ::
  "(string \<Rightarrow> string \<Rightarrow> int) \<Rightarrow> 'm event_store \<Rightarrow> string \<Rightarrow> (string \<times> 'm) list \<times> string" where
  "replayEventsAfter cmp events lastEventId =
     (if lastEventId = [] \<or> \<not> map_has events lastEventId then ([], [])
      else let streamId = getStreamIdFromEventId lastEventId
           in if streamId = [] then ([], [])
              else (replay_loop streamId lastEventId False (sort_by cmp events), streamId))"

text \<open>A sequence of \<open>storeEvent\<close> calls (stream id, message, clock, random text), run in order.\<close>

type_synonym 'm store_call = "string \<times> 'm \<times> nat \<times> string"

fun store_events :: "'m event_store \<Rightarrow> 'm store_call list \<Rightarrow> string list \<times> 'm event_store" where
  "store_events events [] = ([], events)"
| "store_events events ((streamId, message, now, rnd) # calls) =
     (let (eventId, events') = storeEvent events streamId message now rnd;
          (ids, events'') = store_events events' calls
      in (eventId # ids, events''))"





text \<open>
  A consistent comparison, as the language requires of \<open>localeCompare\<close>: any two
  strings are comparable, the order is transitive, and swapping the arguments swaps the
  sign.
\<close>

definition consistent :: "(string \<Rightarrow> string \<Rightarrow> int) \<Rightarrow> bool" where
  "consistent cmp =
     ((\<forall>a b. cmp a b \<le> 0 \<or> cmp b a \<le> 0)
      \<and> (\<forall>a b c. cmp a b \<le> 0 \<and> cmp b c \<le> 0 \<longrightarrow> cmp a c \<le> 0)
      \<and> (\<forall>a b. (cmp a b < 0) = (0 < cmp b a)))"

text \<open>
  The comparison used in the examples. An event id is made of a stream id, underscores,
  the decimal clock and a base-36 text; for underscore, hyphen, digits and lower-case
  letters the collation of the runtime orders the characters as
  \<open>_ - 0 \<dots> 9 a \<dots> z\<close> and compares two such strings character by character, a
  proper prefix first. Other characters do not occur in the examples; they are placed
  after these, by their codes.
\<close>

definition collation_rank :: "char \<Rightarrow> nat" where
  "collation_rank c =
     (let n = (of_char c :: nat) in
      if c = CHR ''_'' then 0
      else if c = CHR ''-'' then 1
      else if 48 \<le> n \<and> n \<le> 57 then n - 46
      else if 97 \<le> n \<and> n \<le> 122 then n - 85
      else n + 38)"

fun collate_ids :: "string \<Rightarrow> string \<Rightarrow> int" where
  "collate_ids [] [] = 0"
| "collate_ids [] (y # ys) = - 1"
| "collate_ids (x # xs) [] = 1"
| "collate_ids (x # xs) (y # ys) =
     (if collation_rank x < collation_rank y then - 1
      else if collation_rank y < collation_rank x then 1
      else collate_ids xs ys)"

section \<open>Reply values and their normalization\<close>

text \<open>
  A backend reply is a JSON value. The program never computes with a number: it prints
  it and tests it for truthiness, so a number is carried as the text JavaScript prints
  for it (zero prints as \<open>0\<close>). An object is the list of its own properties in
  enumeration order.
\<close>

datatype json =
    JNull
  | JBool bool
  | JNum string
  | JStr string
  | JArr "json list"
  | JObj "(string \<times> json) list"

text \<open>\<open>!value\<close>: null, false, zero and the empty string are falsy.\<close>

fun falsy :: "json \<Rightarrow> bool" where
  "falsy JNull = True"
| "falsy (JBool b) = (\<not> b)"
| "falsy (JNum t) = (t = ''0'')"
| "falsy (JStr s) = (s = [])"
| "falsy (JArr xs) = False"
| "falsy (JObj ps) = False"

text \<open>
  \<open>value[field]\<close> for the property names the program reads (\<open>content\<close> and the twelve
  text fields): only an object has them; \<open>None\<close> is \<open>undefined\<close>.
\<close>

fun get_prop :: "json \<Rightarrow> string \<Rightarrow> json option" where
  "get_prop (JObj ps) field = map_of ps field"
| "get_prop v field = None"

text \<open>\<open>JSON.stringify(value, null, 2)\<close>.\<close>

definition hex_char :: "nat \<Rightarrow> char" where
  "hex_char d = ''0123456789abcdef'' ! d"

definition quote_char :: "char \<Rightarrow> string" where
  "quote_char c =
     (let n = (of_char c :: nat) in
      if n = 0x22 then [CHR 0x5C, CHR 0x22]
      else if n = 0x5C then [CHR 0x5C, CHR 0x5C]
      else if n = 0x08 then [CHR 0x5C, CHR ''b'']
      else if n = 0x09 then [CHR 0x5C, CHR ''t'']
      else if n = 0x0A then [CHR 0x5C, CHR ''n'']
      else if n = 0x0C then [CHR 0x5C, CHR ''f'']
      else if n = 0x0D then [CHR 0x5C, CHR ''r'']
      else if n < 0x20 then [CHR 0x5C, CHR ''u'', CHR ''0'', CHR ''0'', hex_char (n div 16), hex_char (n mod 16)]
      else [c])"

definition quote :: "string \<Rightarrow> string" where
  "quote s = [CHR 0x22] @ concat (map quote_char s) @ [CHR 0x22]"

fun join :: "string \<Rightarrow> string list \<Rightarrow> string" where
  "join sep [] = []"
| "join sep [x] = x"
| "join sep (x # y # ys) = x @ sep @ join sep (y # ys)"

fun stringify :: "string \<Rightarrow> json \<Rightarrow> string"
  and stringify_items :: "string \<Rightarrow> json list \<Rightarrow> string list"
  and stringify_props :: "string \<Rightarrow> (string \<times> json) list \<Rightarrow> string list" where
  "stringify indent JNull = ''null''"
| "stringify indent (JBool b) = (if b then ''true'' else ''false'')"
| "stringify indent (JNum t) = t"
| "stringify indent (JStr s) = quote s"
| "stringify indent (JArr []) = ''[]''"
| "stringify indent (JArr (x # xs)) =
     ''['' @ [CHR 0x0A] @ (indent @ ''  '')
       @ join ('','' @ [CHR 0x0A] @ (indent @ ''  '')) (stringify_items (indent @ ''  '') (x # xs))
       @ [CHR 0x0A] @ indent @ '']''"
| "stringify indent (JObj []) = ''{}''"
| "stringify indent (JObj (p # ps)) =
     ''{'' @ [CHR 0x0A] @ (indent @ ''  '')
       @ join ('','' @ [CHR 0x0A] @ (indent @ ''  '')) (stringify_props (indent @ ''  '') (p # ps))
       @ [CHR 0x0A] @ indent @ ''}''"
| "stringify_items indent [] = []"
| "stringify_items indent (x # xs) = stringify indent x # stringify_items indent xs"
| "stringify_props indent [] = []"
| "stringify_props indent ((k, v) # ps) =
     (quote k @ '': '' @ stringify indent v) # stringify_props indent ps"

definition JSON_stringify :: "json \<Rightarrow> string" where
  "JSON_stringify v = stringify [] v"

text \<open>The fixed texts of server.ts, as UTF-8 bytes.\<close>

definition no_response_text :: string where
  "no_response_text =
     [CHR 0xEB, CHR 0x8F, CHR 0x84, CHR 0xEA, CHR 0xB5, CHR 0xAC, CHR '' '', CHR 0xEC,
      CHR 0x8B, CHR 0xA4, CHR 0xED, CHR 0x96, CHR 0x89, CHR '' '', CHR 0xEC, CHR 0x99,
      CHR 0x84, CHR 0xEB, CHR 0xA3, CHR 0x8C, CHR '' '', CHR ''('', CHR 0xEC, CHR 0x9D,
      CHR 0x91, CHR 0xEB, CHR 0x8B, CHR 0xB5, CHR '' '', CHR 0xEC, CHR 0x97, CHR 0x86,
      CHR 0xEC, CHR 0x9D, CHR 0x8C, CHR '')'']"

definition format_error_prefix :: string where
  "format_error_prefix =
     [CHR 0xEB, CHR 0x8F, CHR 0x84, CHR 0xEA, CHR 0xB5, CHR 0xAC, CHR '' '', CHR 0xEC,
      CHR 0x8B, CHR 0xA4, CHR 0xED, CHR 0x96, CHR 0x89, CHR '' '', CHR 0xEC, CHR 0x98,
      CHR 0xA4, CHR 0xEB, CHR 0xA5, CHR 0x98, CHR '':'', CHR '' '', CHR ''M'', CHR ''C'',
      CHR ''P'', CHR '' '', CHR 0xEC, CHR 0x9D, CHR 0x91, CHR 0xEB, CHR 0x8B, CHR 0xB5,
      CHR '' '', CHR 0xED, CHR 0x98, CHR 0x95, CHR 0xEC, CHR 0x8B, CHR 0x9D, CHR '' '',
      CHR 0xEB, CHR 0xAC, CHR 0xB8, CHR 0xEC, CHR 0xA0, CHR 0x9C, CHR '' '', CHR ''('']"

definition format_error_middle :: string where
  "format_error_middle =
     [CHR '')'', CHR 0x0A, CHR 0xEC, CHR 0x98, CHR 0xA4, CHR 0xEB, CHR 0xA5, CHR 0x98,
      CHR '' '', CHR 0xEC, CHR 0x84, CHR 0xB8, CHR 0xEB, CHR 0xB6, CHR 0x80, CHR 0xEC,
      CHR 0x82, CHR 0xAC, CHR 0xED, CHR 0x95, CHR 0xAD, CHR '':'', CHR '' '']"

definition tool_call_error_text :: string where
  "tool_call_error_text =
     [CHR 0xEB, CHR 0x8F, CHR 0x84, CHR 0xEA, CHR 0xB5, CHR 0xAC, CHR '' '', CHR 0xED,
      CHR 0x98, CHR 0xB8, CHR 0xEC, CHR 0xB6, CHR 0x9C, CHR '' '', CHR 0xEC, CHR 0x98,
      CHR 0xA4, CHR 0xEB, CHR 0xA5, CHR 0x98]"

text \<open>The canonical envelope with one text item: \<open>{content: [{type: "text", text}]}\<close>.\<close>

definition text_result :: "string \<Rightarrow> json" where
  "text_result t = JObj [(''content'', JArr [JObj [(''type'', JStr ''text''), (''text'', JStr t)]])]"

text \<open>\<open>result.content && Array.isArray(result.content) && result.content.length > 0\<close>.\<close>

definition is_canonical :: "json \<Rightarrow> bool" where
  "is_canonical r =
     (case get_prop r ''content'' of
        Some (JArr (x # xs)) \<Rightarrow> True
      | _ \<Rightarrow> False)"

definition textFields :: "string list" where
  "textFields =
     [''text'', ''content'', ''message'', ''result'', ''output'',
      ''transcript'', ''description'', ''summary'', ''response'',
      ''value'', ''body'', ''data'']"

text \<open>
  The loop over \<open>textFields\<close>: it stops at the first field whose value is a string or an
  object (an array is an object), and returns \<open>(textContent, usedField)\<close>; both are empty
  when the loop runs to its end.
\<close>

fun scan_fields :: "json \<Rightarrow> string list \<Rightarrow> string \<times> string" where
  "scan_fields r [] = ([], [])"
| "scan_fields r (field # fields) =
     (case get_prop r field of
        None \<Rightarrow> scan_fields r fields
      | Some JNull \<Rightarrow> scan_fields r fields
      | Some (JStr s) \<Rightarrow> (s, field)
      | Some (JArr xs) \<Rightarrow> (JSON_stringify (JArr xs), field)
      | Some (JObj ps) \<Rightarrow> (JSON_stringify (JObj ps), field)
      | Some v \<Rightarrow> scan_fields r fields)"

text \<open>The object branch up to its \<open>return\<close>: the loop, then \<open>if (!textContent)\<close>.\<close>

definition extract_text :: "json \<Rightarrow> string \<times> string" where
  "extract_text r =
     (let (textContent, usedField) = scan_fields r textFields
      in if textContent = [] then (JSON_stringify r, ''full_object'')
         else (textContent, usedField))"

text \<open>
  The normalization of \<open>callTool\<close> (the \<open>try\<close> block after the call). \<open>None\<close> is an
  \<open>undefined\<close> result. The last three cases are \<open>String(result)\<close> for a number, a
  boolean and null. Serializing a JSON value does not throw, so the \<open>catch\<close> of that
  block is never entered.
\<close>

definition normalize_result :: "json option \<Rightarrow> json" where
  "normalize_result result =
     (case result of
        None \<Rightarrow> text_result no_response_text
      | Some r \<Rightarrow>
          if falsy r then text_result no_response_text
          else if is_canonical r then r
          else (case r of
                  JStr s \<Rightarrow> text_result s
                | JObj ps \<Rightarrow> text_result (fst (extract_text r))
                | JArr xs \<Rightarrow> text_result (fst (extract_text r))
                | JNum t \<Rightarrow> text_result t
                | JBool b \<Rightarrow> text_result (if b then ''true'' else ''false'')
                | JNull \<Rightarrow> text_result ''null''))"

section \<open>The connection registry, aggregation and routing\<close>

text \<open>
  A tool or prompt descriptor carries a \<open>name\<close>, a resource descriptor a \<open>uri\<close>; their
  other properties are copied by the aggregation and are not modelled. The \<open>client\<close> of
  a connection is the backend's behaviour, which is an input of each call; its
  \<open>_transport\<close> is the state of the raw transport (\<open>None\<close> when the property is
  undefined), defined with the schema-bypass recovery below.
\<close>

record capability =
  name :: string

record resource =
  uri :: string

datatype rpc_id = NumId int | StrId string

text \<open>
  An incoming JSON-RPC message: its \<open>id\<close>, its \<open>error\<close> (\<open>Some None\<close> is an error object
  without a \<open>message\<close>) and its \<open>result\<close>.
\<close>

record rpc_message =
  msg_id :: "rpc_id option"
  msg_error :: "string option option"
  msg_result :: "json option"

record request =
  req_id :: int
  req_name :: string
  req_arguments :: json

datatype reject_reason = NoTransport | Timeout | ErrorReply string | NoSendMethod | SendError string

datatype direct_outcome = Resolved "json option" | Rejected reject_reason

text \<open>
  A value of \<open>transport.onmessage\<close>: the handler the protocol client installed, or the
  closure that \<open>callToolDirectly\<close> builds, which holds its request id and the handler it
  replaced (\<open>originalOnMessage\<close>).
\<close>

datatype handler = Protocol | Interceptor int "handler option"

text \<open>
  The raw transport: the current handler, the messages that reached the protocol
  client's handler, the requests written by \<open>send\<close>, the armed 30-second timers and the
  settled promises of the recoveries, both keyed by request id.
\<close>

record transport_state =
  onmessage :: "handler option"
  delivered :: "rpc_message list"
  sent :: "request list"
  timers :: "int list"
  promises :: "(int \<times> direct_outcome) list"

record HamaClientConnection =
  serverName :: string
  client_transport :: "transport_state option"
  active :: bool
  tools :: "capability list"
  prompts :: "capability list"
  resources :: "resource list"

type_synonym registry = "(string \<times> HamaClientConnection) list"

record thrown =
  err_name :: string
  err_message :: string
  err_issues :: bool

datatype error =
    ToolNotFound string
  | PromptNotFound string
  | ResourceNotFound string
  | ServerUnavailable string
  | Rethrown thrown
  | ConfigNotLoaded

text \<open>The entries of the merged listings.\<close>

record unified_capability =
  u_name :: string
  u_serverName :: string
  fullName :: string

record unified_resource =
  u_uri :: string
  r_serverName :: string
  fullUri :: string

definition getUnifiedTools :: "registry \<Rightarrow> unified_capability list" where
  "getUnifiedTools hamaConnections =
     concat (map (\<lambda>(sName, connection).
        if active connection
        then map (\<lambda>tool. \<lparr>u_name = name tool, u_serverName = sName,
                            fullName = sName @ '':'' @ name tool\<rparr>) (tools connection)
        else []) hamaConnections)"

definition getUnifiedPrompts :: "registry \<Rightarrow> unified_capability list" where
  "getUnifiedPrompts hamaConnections =
     concat (map (\<lambda>(sName, connection).
        if active connection
        then map (\<lambda>prompt. \<lparr>u_name = name prompt, u_serverName = sName,
                              fullName = sName @ '':'' @ name prompt\<rparr>) (prompts connection)
        else []) hamaConnections)"

definition getUnifiedResources :: "registry \<Rightarrow> unified_resource list" where
  "getUnifiedResources hamaConnections =
     concat (map (\<lambda>(sName, connection).
        if active connection
        then map (\<lambda>res. \<lparr>u_uri = uri res, r_serverName = sName,
                           fullUri = sName @ '':'' @ uri res\<rparr>) (resources connection)
        else []) hamaConnections)"

text \<open>
  \<open>[targetServer, actualName] = qualified.split(':', 2)\<close>. A string that includes the
  separator splits into at least two pieces, so the last case is not reached from the
  callers below.
\<close>

definition split_qualified :: "string \<Rightarrow> string \<times> string" where
  "split_qualified qualified =
     (case split_limit (CHR '':'') 2 qualified of
        targetServer # actualName # _ \<Rightarrow> (targetServer, actualName)
      | _ \<Rightarrow> ([], []))"

text \<open>
  The first part of \<open>callTool\<close>, \<open>getPrompt\<close> and \<open>readResource\<close>: the target server
  and the local name, then the connection that receives the call.
\<close>

definition resolve_tool :: "registry \<Rightarrow> string \<Rightarrow> error + string \<times> string" where
  "resolve_tool hamaConnections toolName =
     (if CHR '':'' \<in> set toolName then Inr (split_qualified toolName)
      else (case find (\<lambda>conn. active conn \<and> list_ex (\<lambda>tool. name tool = toolName) (tools conn))
                   (map snd hamaConnections) of
              None \<Rightarrow> Inl (ToolNotFound toolName)
            | Some connection \<Rightarrow> Inr (serverName connection, toolName)))"

definition resolve_prompt :: "registry \<Rightarrow> string \<Rightarrow> error + string \<times> string" where
  "resolve_prompt hamaConnections promptName =
     (if CHR '':'' \<in> set promptName then Inr (split_qualified promptName)
      else (case find (\<lambda>conn. active conn \<and> list_ex (\<lambda>prompt. name prompt = promptName) (prompts conn))
                   (map snd hamaConnections) of
              None \<Rightarrow> Inl (PromptNotFound promptName)
            | Some connection \<Rightarrow> Inr (serverName connection, promptName)))"

definition resolve_resource :: "registry \<Rightarrow> string \<Rightarrow> error + string \<times> string" where
  "resolve_resource hamaConnections resourceUri =
     (if CHR '':'' \<in> set resourceUri then Inr (split_qualified resourceUri)
      else (case find (\<lambda>conn. active conn \<and> list_ex (\<lambda>res. uri res = resourceUri) (resources conn))
                   (map snd hamaConnections) of
              None \<Rightarrow> Inl (ResourceNotFound resourceUri)
            | Some connection \<Rightarrow> Inr (serverName connection, resourceUri)))"

definition target_connection ::
  "registry \<Rightarrow> string \<times> string \<Rightarrow> error + HamaClientConnection \<times> string" where
  "target_connection hamaConnections target =
     (case map_of hamaConnections (fst target) of
        None \<Rightarrow> Inl (ServerUnavailable (fst target))
      | Some connection \<Rightarrow>
          if active connection then Inr (connection, snd target)
          else Inl (ServerUnavailable (fst target)))"

text \<open>
  Where a call goes: the connection whose client is called, and the name or uri it is
  called with.
\<close>

definition route_tool :: "registry \<Rightarrow> string \<Rightarrow> error + HamaClientConnection \<times> string" where
  "route_tool hamaConnections toolName =
     (case resolve_tool hamaConnections toolName of
        Inl e \<Rightarrow> Inl e
      | Inr target \<Rightarrow> target_connection hamaConnections target)"

definition route_prompt :: "registry \<Rightarrow> string \<Rightarrow> error + HamaClientConnection \<times> string" where
  "route_prompt hamaConnections promptName =
     (case resolve_prompt hamaConnections promptName of
        Inl e \<Rightarrow> Inl e
      | Inr target \<Rightarrow> target_connection hamaConnections target)"

definition route_resource :: "registry \<Rightarrow> string \<Rightarrow> error + HamaClientConnection \<times> string" where
  "route_resource hamaConnections resourceUri =
     (case resolve_resource hamaConnections resourceUri of
        Inl e \<Rightarrow> Inl e
      | Inr target \<Rightarrow> target_connection hamaConnections target)"

section \<open>The schema-bypass recovery\<close>

text \<open>
  A promise settles once: \<open>resolve\<close> and \<open>reject\<close> on a settled promise do nothing.
\<close>

definition settle :: "int \<Rightarrow> direct_outcome \<Rightarrow> transport_state \<Rightarrow> transport_state" where
  "settle rid outcome st =
     (if map_has (promises st) rid then st
      else st\<lparr>promises := promises st @ [(rid, outcome)]\<rparr>)"

definition clearTimeout :: "int \<Rightarrow> transport_state \<Rightarrow> transport_state" where
  "clearTimeout rid st = st\<lparr>timers := removeAll rid (timers st)\<rparr>"

text \<open>
  Calling a handler with a message. The interceptor compares \<open>response.id\<close> with its
  request id; on a match it clears its timer, restores \<open>originalOnMessage\<close> and settles
  its promise; otherwise it calls \<open>originalOnMessage\<close> if there is one.
\<close>

fun run_handler :: "handler \<Rightarrow> rpc_message \<Rightarrow> transport_state \<Rightarrow> transport_state" where
  "run_handler Protocol response st = st\<lparr>delivered := delivered st @ [response]\<rparr>"
| "run_handler (Interceptor rid originalOnMessage) response st =
     (if msg_id response = Some (NumId rid)
      then (let st1 = clearTimeout rid st;
                st2 = st1\<lparr>onmessage := originalOnMessage\<rparr>
            in case msg_error response of
                 Some e \<Rightarrow>
                   settle rid (Rejected (ErrorReply
                     (case e of None \<Rightarrow> tool_call_error_text
                      | Some m \<Rightarrow> if m = [] then tool_call_error_text else m))) st2
               | None \<Rightarrow> settle rid (Resolved (msg_result response)) st2)
      else (case originalOnMessage of
              None \<Rightarrow> st
            | Some h \<Rightarrow> run_handler h response st))"

text \<open>The transport delivers an incoming message to \<open>onmessage\<close>, if one is set.\<close>

definition receive :: "rpc_message \<Rightarrow> transport_state \<Rightarrow> transport_state" where
  "receive response st =
     (case onmessage st of
        None \<Rightarrow> st
      | Some h \<Rightarrow> run_handler h response st)"

text \<open>What \<open>transport.send\<close> does with the request: it writes it, it is missing, or it throws.\<close>

datatype send_behaviour = SendOk | SendMissing | SendThrows string

text \<open>
  The executor of the promise in \<open>callToolDirectly\<close>: a new pending promise, the timer,
  the interceptor, the send.
\<close>

definition install :: "request \<Rightarrow> send_behaviour \<Rightarrow> transport_state \<Rightarrow> transport_state" where
  "install req sending st =
     (let rid = req_id req;
          st0 = st\<lparr>promises := map_delete rid (promises st)\<rparr>;
          st1 = st0\<lparr>timers := rid # timers st0\<rparr>;
          originalOnMessage = onmessage st1;
          st2 = st1\<lparr>onmessage := Some (Interceptor rid originalOnMessage)\<rparr>
      in case sending of
           SendOk \<Rightarrow> st2\<lparr>sent := sent st2 @ [req]\<rparr>
         | SendMissing \<Rightarrow> settle rid (Rejected NoSendMethod) st2
         | SendThrows sendError \<Rightarrow>
             settle rid (Rejected (SendError sendError))
               ((clearTimeout rid st2)\<lparr>onmessage := originalOnMessage\<rparr>))"

text \<open>The timer's callback, which runs if the timer is still armed: it rejects, and nothing else.\<close>

definition fire_timeout :: "int \<Rightarrow> transport_state \<Rightarrow> transport_state" where
  "fire_timeout rid st =
     (if rid \<in> set (timers st)
      then settle rid (Rejected Timeout) (st\<lparr>timers := removeAll rid (timers st)\<rparr>)
      else st)"

text \<open>
  \<open>callToolDirectly\<close>, with \<open>Date.now()\<close>, the behaviour of \<open>send\<close> and the messages that
  arrive within the 30 seconds as inputs. The result is the state of the promise once the
  timer has fired or was cleared (\<open>None\<close> is a promise still pending) and the transport
  as the call leaves it.
\<close>

definition callToolDirectly ::
  "transport_state option \<Rightarrow> string \<Rightarrow> json \<Rightarrow> int \<Rightarrow> send_behaviour \<Rightarrow> rpc_message list
     \<Rightarrow> direct_outcome option \<times> transport_state option" where
  "callToolDirectly transport toolName params now sending incoming =
     (case transport of
        None \<Rightarrow> (Some (Rejected NoTransport), None)
      | Some st \<Rightarrow>
          (let req = \<lparr>req_id = now, req_name = toolName, req_arguments = params\<rparr>;
               st1 = install req sending st;
               st2 = foldl (\<lambda>s response. receive response s) st1 incoming;
               st3 = fire_timeout now st2
           in (map_of (promises st3) now, Some st3)))"

section \<open>callTool\<close>

datatype client_outcome = Returns "json option" | Throws thrown

text \<open>
  What the backends do during one call: the outcome of \<open>client.callTool\<close> on the
  client of the connection with a given \<open>serverName\<close>, for a tool name and arguments; and
  for the recovery the clock, the behaviour of \<open>send\<close> and the incoming messages.
\<close>

record call_env =
  client_callTool :: "string \<Rightarrow> string \<Rightarrow> json \<Rightarrow> client_outcome"
  clock :: int
  sending :: send_behaviour
  incoming :: "rpc_message list"

text \<open>
  \<open>callTool\<close> returns its result (\<open>Inl\<close> is a thrown error, \<open>None\<close> a call that never
  returns), the registry, in which the called connection's transport may have changed,
  and the calls of \<open>client.callTool\<close> it made: the \<open>serverName\<close> of the connection whose
  client was called, the name and the arguments.
\<close>

definition callTool ::
  "registry \<Rightarrow> call_env \<Rightarrow> string \<Rightarrow> json
     \<Rightarrow> (error + json) option \<times> registry \<times> (string \<times> string \<times> json) list" where
  "callTool hamaConnections env toolName params =
     (case route_tool hamaConnections toolName of
        Inl e \<Rightarrow> (Some (Inl e), hamaConnections, [])
      | Inr (connection, actualToolName) \<Rightarrow>
          (case client_callTool env (serverName connection) actualToolName params of
             Returns result \<Rightarrow>
               (Some (Inr (normalize_result result)), hamaConnections,
                [(serverName connection, actualToolName, params)])
           | Throws err \<Rightarrow>
               if err_name err = ''ZodError'' \<and> err_issues err
               then (case callToolDirectly (client_transport connection) actualToolName params
                            (clock env) (sending env) (incoming env) of
                       (outcome, transport') \<Rightarrow>
                         (case outcome of
                            None \<Rightarrow> None
                          | Some (Resolved rawResult) \<Rightarrow> Some (Inr (normalize_result rawResult))
                          | Some (Rejected directError) \<Rightarrow>
                              Some (Inr (text_result
                                (format_error_prefix @ actualToolName @ format_error_middle
                                   @ err_message err))),
                          map_set (serverName connection)
                            (connection\<lparr>client_transport := transport'\<rparr>) hamaConnections,
                          [(serverName connection, actualToolName, params)]))
               else (Some (Inl (Rethrown err)), hamaConnections,
                     [(serverName connection, actualToolName, params)])))"

definition client_calls ::
  "(error + json) option \<times> registry \<times> (string \<times> string \<times> json) list
     \<Rightarrow> (string \<times> string \<times> json) list" where
  "client_calls outcome = snd (snd outcome)"

section \<open>Connecting the backends\<close>

record server_config =
  command :: string
  args :: "string list"
  env :: "(string \<times> string) list option"

text \<open>
  What a connection attempt meets: \<open>mcpClient.connect\<close> fails, or it succeeds and each of
  the three listings returns a list or fails (\<open>None\<close>).
\<close>

datatype connect_outcome =
    ConnectFails
  | Connects "transport_state option" "capability list option" "capability list option"
      "resource list option"

datatype connect_error = ConnectError string

definition or_empty :: "'a list option \<Rightarrow> 'a list" where
  "or_empty listing = (case listing of None \<Rightarrow> [] | Some xs \<Rightarrow> xs)"

definition connectToServer ::
  "registry \<Rightarrow> string \<Rightarrow> connect_outcome \<Rightarrow> connect_error + registry" where
  "connectToServer hamaConnections sName outcome =
     (case outcome of
        ConnectFails \<Rightarrow> Inl (ConnectError sName)
      | Connects transport ts ps rs \<Rightarrow>
          Inr (map_set sName
                 \<lparr>serverName = sName, client_transport = transport, active = True,
                  tools = or_empty ts, prompts = or_empty ps, resources = or_empty rs\<rparr>
                 hamaConnections))"

text \<open>
  One attempt of \<open>connectAllServers\<close>: the \<open>try\<close> around \<open>connectToServer\<close>, whose
  \<open>catch\<close> logs and goes on.
\<close>

definition attempt ::
  "(string \<Rightarrow> server_config \<Rightarrow> connect_outcome) \<Rightarrow> registry \<Rightarrow> string \<times> server_config \<Rightarrow> registry" where
  "attempt behaviour hamaConnections entry =
     (case connectToServer hamaConnections (fst entry) (behaviour (fst entry) (snd entry)) of
        Inl e \<Rightarrow> hamaConnections
      | Inr hamaConnections' \<Rightarrow> hamaConnections')"

text \<open>
  \<open>connectAllServers\<close> starts one attempt per entry of the configuration and awaits them
  all. An attempt writes the registry once, in its last statement, so the registry is
  built in the order in which the attempts complete: \<open>finish\<close> gives the time at which
  the attempt for a backend completes, and attempts that complete together are taken in
  the order in which they were started.
\<close>

definition completion_order ::
  "(string \<Rightarrow> nat) \<Rightarrow> (string \<times> server_config) list \<Rightarrow> (string \<times> server_config) list" where
  "completion_order finish hamaServers = sort_key (\<lambda>entry. finish (fst entry)) hamaServers"

definition connectAllServers ::
  "(string \<times> server_config) list option \<Rightarrow> (string \<Rightarrow> server_config \<Rightarrow> connect_outcome)
     \<Rightarrow> (string \<Rightarrow> nat) \<Rightarrow> registry \<Rightarrow> error + registry" where
  "connectAllServers config behaviour finish hamaConnections =
     (case config of
        None \<Rightarrow> Inl ConfigNotLoaded
      | Some hamaServers \<Rightarrow>
          Inr (foldl (attempt behaviour) hamaConnections (completion_order finish hamaServers)))"

section \<open>Closing sessions\<close>






section \<open>Notions used by the statements\<close>

text \<open>
  The registry as \<open>connectToServer\<close> builds it: one entry per key, and every connection
  is stored under its own \<open>serverName\<close>.
\<close>

definition wf_registry :: "registry \<Rightarrow> bool" where
  "wf_registry hamaConnections =
     (distinct (map fst hamaConnections)
      \<and> list_all (\<lambda>entry. serverName (snd entry) = fst entry) hamaConnections)"

text \<open>
  The first field of \<open>textFields\<close> that is present with a non-null value (the
  specification's wording), and the first one whose value is a string or structured.
\<close>

definition first_present :: "json \<Rightarrow> string option" where
  "first_present r =
     find (\<lambda>field. get_prop r field \<noteq> None \<and> get_prop r field \<noteq> Some JNull) textFields"

fun textual :: "json option \<Rightarrow> bool" where
  "textual (Some (JStr s)) = True"
| "textual (Some (JArr xs)) = True"
| "textual (Some (JObj ps)) = True"
| "textual v = False"

definition first_textual :: "json \<Rightarrow> string option" where
  "first_textual r = find (\<lambda>field. textual (get_prop r field)) textFields"

fun structured :: "json \<Rightarrow> bool" where
  "structured (JArr xs) = True"
| "structured (JObj ps) = True"
| "structured v = False"


text \<open>
  While a recovery is in flight its timer is armed or its promise is settled.
\<close>

definition armed_or_settled :: "int \<Rightarrow> transport_state \<Rightarrow> bool" where
  "armed_or_settled rid st = (rid \<in> set (timers st) \<or> map_has (promises st) rid)"

text \<open>The connection that \<open>connectToServer\<close> registers for an outcome, if any.\<close>

definition registered :: "string \<Rightarrow> connect_outcome \<Rightarrow> HamaClientConnection option" where
  "registered sName outcome =
     (case outcome of
        ConnectFails \<Rightarrow> None
      | Connects transport ts ps rs \<Rightarrow>
          Some \<lparr>serverName = sName, client_transport = transport, active = True,
                tools = or_empty ts, prompts = or_empty ps, resources = or_empty rs\<rparr>)"

section \<open>Example data\<close>

text \<open>
  Four interleaved streams. The three events of stream \<open>a\<close> are stored within one
  millisecond; the id of stream \<open>x_y\<close> contains an underscore.
\<close>

definition interleaved_calls :: "nat store_call list" where
  "interleaved_calls =
     [(''a'', 1, 1700000000000, ''k3x9q2ab''),
      (''b'', 2, 1700000000000, ''0f8r1m2c''),
      (''x_y'', 6, 1700000000000, ''b5b5b5b5''),
      (''a'', 3, 1700000000000, ''zq81hd0e''),
      (''c'', 4, 1700000000001, ''m2m2m2m2''),
      (''x_y'', 7, 1700000000001, ''c6c6c6c6''),
      (''a'', 5, 1700000000000, ''a7c0v5tt'')]"

definition interleaved_store :: "nat event_store" where
  "interleaved_store =
     [(''a_1700000000000_k3x9q2ab'', (1, ''a'')),
      (''b_1700000000000_0f8r1m2c'', (2, ''b'')),
      (''x_y_1700000000000_b5b5b5b5'', (6, ''x_y'')),
      (''a_1700000000000_zq81hd0e'', (3, ''a'')),
      (''c_1700000000001_m2m2m2m2'', (4, ''c'')),
      (''x_y_1700000000001_c6c6c6c6'', (7, ''x_y'')),
      (''a_1700000000000_a7c0v5tt'', (5, ''a''))]"



text \<open>A transport with the protocol client's handler installed and nothing in flight.\<close>

definition idle_transport :: transport_state where
  "idle_transport =
     \<lparr>onmessage = Some Protocol, delivered = [], sent = [], timers = [], promises = []\<rparr>"

definition timed_out_transport :: transport_state where
  "timed_out_transport =
     \<lparr>onmessage = Some (Interceptor 1700000000000 (Some Protocol)), delivered = [],
      sent = [\<lparr>req_id = 1700000000000, req_name = ''toolX'', req_arguments = JObj []\<rparr>],
      timers = [], promises = [(1700000000000, Rejected Timeout)]\<rparr>"

definition connection_of ::
  "string \<Rightarrow> bool \<Rightarrow> string list \<Rightarrow> string list \<Rightarrow> HamaClientConnection" where
  "connection_of sName is_active tool_names uris =
     \<lparr>serverName = sName, client_transport = Some idle_transport, active = is_active,
      tools = map (\<lambda>n. \<lparr>name = n\<rparr>) tool_names, prompts = [],
      resources = map (\<lambda>u. \<lparr>uri = u\<rparr>) uris\<rparr>"

text \<open>A backend whose tool name and resource uri contain the separator.\<close>

definition fs_registry :: registry where
  "fs_registry = [(''fs'', connection_of ''fs'' True [''read:file''] [''file:///a.txt''])]"

text \<open>Two active backends that both define \<open>toolX\<close>, after an inactive one.\<close>

definition two_registry :: registry where
  "two_registry =
     [(''serverC'', connection_of ''serverC'' False [''toolX''] []),
      (''serverB'', connection_of ''serverB'' True [''toolX'', ''toolY''] []),
      (''serverA'', connection_of ''serverA'' True [''toolX''] [])]"

text \<open>Backends whose clients all throw a ZodError, and no message arrives.\<close>

definition zod_env :: call_env where
  "zod_env =
     \<lparr>client_callTool = (\<lambda>sName toolName params.
        Throws \<lparr>err_name = ''ZodError'', err_message = ''invalid_type'', err_issues = True\<rparr>),
      clock = 1700000000000, sending = SendOk, incoming = []\<rparr>"

text \<open>Backends that reply with their own name and the name of the tool they were called with.\<close>

definition echo_env :: call_env where
  "echo_env =
     \<lparr>client_callTool = (\<lambda>sName toolName params. Returns (Some (JStr (sName @ ''/'' @ toolName)))),
      clock = 1700000000000, sending = SendOk, incoming = []\<rparr>"

text \<open>Two active backends; the tool of \<open>serverA\<close> has the separator in its name.\<close>

definition colon_registry :: registry where
  "colon_registry =
     [(''serverB'', connection_of ''serverB'' True [''tool''] []),
      (''serverA'', connection_of ''serverA'' True [''tool:x''] [])]"

definition late_reply :: rpc_message where
  "late_reply = \<lparr>msg_id = Some (NumId 1700000000000), msg_error = None, msg_result = Some (JStr ''late'')\<rparr>"

definition other_reply :: rpc_message where
  "other_reply = \<lparr>msg_id = Some (NumId 7), msg_error = None, msg_result = Some (JStr ''other'')\<rparr>"

definition npx :: server_config where
  "npx = \<lparr>command = ''npx'', args = [''-y'', ''package-name''], env = None\<rparr>"

definition broken :: server_config where
  "broken = \<lparr>command = ''no-such-command'', args = [], env = None\<rparr>"

definition two_servers :: "(string \<times> server_config) list" where
  "two_servers = [(''bad'', broken), (''good'', npx)]"

definition two_behaviour :: "string \<Rightarrow> server_config \<Rightarrow> connect_outcome" where
  "two_behaviour sName cfg =
     (if command cfg = ''npx''
      then Connects (Some idle_transport) (Some [\<lparr>name = ''get_transcript''\<rparr>]) None (Some [])
      else ConnectFails)"


section \<open>Properties of the runtime pieces\<close>

lemma map_fst_map_set:
  "map fst (map_set k v m) = (if k \<in> set (map fst m) then map fst m else map fst m @ [k])"
  by (induction m) force+

lemma keys_map_set: "fst ` set (map_set k v m) = insert k (fst ` set m)"
proof -
  have "set (map fst (map_set k v m)) = insert k (set (map fst m))"
    unfolding map_fst_map_set by auto
  then show ?thesis by simp
qed

lemma distinct_map_set: "distinct (map fst m) \<Longrightarrow> distinct (map fst (map_set k v m))"
  unfolding map_fst_map_set by simp

lemma set_map_set: "set (map_set k v m) \<subseteq> insert (k, v) (set m)"
  by (induction m) (auto split: if_splits)

lemma map_of_map_set: "map_of (map_set k v m) = (map_of m)(k \<mapsto> v)"
  by (induction m) (auto simp: fun_eq_iff)

lemma map_has_map_delete: "\<not> map_has (map_delete k m) k"
  by (auto simp: map_has_def map_delete_def map_of_eq_None_iff)

lemma map_delete_twice: "map_delete k (map_delete k m) = map_delete k m"
  by (simp add: map_delete_def)

lemma split_not_empty: "split sep s \<noteq> []"
  by (induction s) (auto split: list.splits)

lemma split_no_separator: "sep \<notin> set s \<Longrightarrow> split sep s = [s]"
  by (induction s) auto

lemma split_at_first: "sep \<notin> set xs \<Longrightarrow> split sep (xs @ sep # ys) = xs # split sep ys"
  by (induction xs) auto

lemma hd_split_takeWhile: "hd (split sep s) = takeWhile (\<lambda>c. c \<noteq> sep) s"
  by (induction s) (auto split: list.splits simp: split_not_empty)


lemma string_of_nat_1: "string_of_nat 1 = ''1''"
  by (simp add: string_of_nat.simps digit_char_def)

lemma string_of_nat_Suc_0: "string_of_nat (Suc 0) = ''1''"
  by (simp add: string_of_nat.simps digit_char_def)

lemma string_of_nat_10: "string_of_nat 10 = ''10''"
  by (simp add: string_of_nat.simps digit_char_def)

lemma string_of_nat_1700000000000: "string_of_nat 1700000000000 = ''1700000000000''"
  by (simp add: string_of_nat.simps digit_char_def)

lemma string_of_nat_1700000000001: "string_of_nat 1700000000001 = ''1700000000001''"
  by (simp add: string_of_nat.simps digit_char_def)

lemmas clock_texts =
  string_of_nat_1 string_of_nat_Suc_0 string_of_nat_10 string_of_nat_1700000000000 string_of_nat_1700000000001

section \<open>Sorting the entries\<close>













section \<open>The event store: replay\<close>




lemma store_events_keys:
  "fst ` set (snd (store_events events calls)) =
     fst ` set events \<union> set (fst (store_events events calls))"
proof (induction calls arbitrary: events)
  case Nil
  then show ?case by simp
next
  case (Cons c calls)
  obtain sid m now rnd where c: "c = (sid, m, now, rnd)" by (cases c)
  show ?case
    using Cons.IH [of "snd (storeEvent events sid m now rnd)"]
    by (cases "store_events (snd (storeEvent events sid m now rnd)) calls")
       (auto simp: c storeEvent_def Let_def keys_map_set)
qed




lemma store_events_interleaved:
  "store_events [] interleaved_calls =
     ([''a_1700000000000_k3x9q2ab'', ''b_1700000000000_0f8r1m2c'', ''x_y_1700000000000_b5b5b5b5'',
       ''a_1700000000000_zq81hd0e'', ''c_1700000000001_m2m2m2m2'', ''x_y_1700000000001_c6c6c6c6'',
       ''a_1700000000000_a7c0v5tt''], interleaved_store)"
  by (simp add: interleaved_calls_def interleaved_store_def storeEvent_def generateEventId_def
      clock_texts Let_def)







text \<open>
  The first failure does not depend on the comparison of the examples: for every
  consistent comparison that puts the id of the later event before the id of the earlier
  one, the replay after the earlier event does not send the later one.
\<close>

lemma replay_misses_smaller_id:
  assumes "consistent cmp"
      and "cmp ''a_1700000000000_a7c0v5tt'' ''a_1700000000000_k3x9q2ab'' < 0"
  shows "fst (replayEventsAfter cmp
           [(''a_1700000000000_k3x9q2ab'', (1::nat, ''a'')),
            (''a_1700000000000_a7c0v5tt'', (5, ''a''))]
           ''a_1700000000000_k3x9q2ab'') = []"
proof -
  from assms have "0 < cmp ''a_1700000000000_k3x9q2ab'' ''a_1700000000000_a7c0v5tt''"
    unfolding consistent_def by blast
  then show ?thesis
    by (simp add: replayEventsAfter_def sort_by_def map_has_def getStreamIdFromEventId_def Let_def)
qed

text \<open>
  C10: for a store built by any sequence of \<open>storeEvent\<close> calls, a replay after the empty
  id, or after an id that no \<open>storeEvent\<close> call returned, sends nothing and returns the
  empty string, whatever the comparison of ids is.
\<close>

theorem replay_unknown_id_sends_nothing:
  assumes "store_events [] calls = (ids, events)"
      and "lastEventId = [] \<or> lastEventId \<notin> set ids"
  shows "replayEventsAfter cmp events lastEventId = ([], [])"
proof -
  have "fst ` set events = set ids"
    using store_events_keys [of "[]" calls] assms(1) by simp
  then have "lastEventId \<notin> set ids \<Longrightarrow> \<not> map_has events lastEventId"
    by (simp add: map_has_def map_of_eq_None_iff)
  with assms(2) show ?thesis
    by (auto simp: replayEventsAfter_def)
qed

theorem replay_unknown_id_sends_nothing_witness:
  "''a_1700000000000_zzzzzzzz'' \<notin> set (fst (store_events [] interleaved_calls))
   \<and> replayEventsAfter collate_ids interleaved_store ''a_1700000000000_zzzzzzzz'' = ([], [])
   \<and> replayEventsAfter collate_ids interleaved_store [] = ([], [])"
proof -
  have h: "''a_1700000000000_zzzzzzzz'' = [] \<or> ''a_1700000000000_zzzzzzzz'' \<notin>
      set [''a_1700000000000_k3x9q2ab'', ''b_1700000000000_0f8r1m2c'', ''x_y_1700000000000_b5b5b5b5'',
       ''a_1700000000000_zq81hd0e'', ''c_1700000000001_m2m2m2m2'', ''x_y_1700000000001_c6c6c6c6'',
       ''a_1700000000000_a7c0v5tt'']"
    by simp
  have e: "[] = [] \<or> [] \<notin>
      set [''a_1700000000000_k3x9q2ab'', ''b_1700000000000_0f8r1m2c'', ''x_y_1700000000000_b5b5b5b5'',
       ''a_1700000000000_zq81hd0e'', ''c_1700000000001_m2m2m2m2'', ''x_y_1700000000001_c6c6c6c6'',
       ''a_1700000000000_a7c0v5tt'']"
    by simp
  show ?thesis
    using replay_unknown_id_sends_nothing [OF store_events_interleaved h, of collate_ids]
      replay_unknown_id_sends_nothing [OF store_events_interleaved e, of collate_ids]
    by (simp add: store_events_interleaved)
qed


section \<open>Normalization of tool results\<close>

lemma text_result_canonical: "is_canonical (text_result t)"
  by (simp add: text_result_def is_canonical_def)

lemma canonical_passes: "is_canonical r \<Longrightarrow> normalize_result (Some r) = r"
  by (cases r) (auto simp: normalize_result_def is_canonical_def split: option.splits json.splits list.splits)

lemma normalize_result_canonical: "is_canonical (normalize_result x)"
  by (simp add: normalize_result_def text_result_canonical split: option.split json.split)

lemma stringify_structured_not_empty: "structured v \<Longrightarrow> JSON_stringify v \<noteq> []"
proof (cases v)
  case (JArr xs)
  then show ?thesis by (cases xs) (simp_all add: JSON_stringify_def)
next
  case (JObj ps)
  then show ?thesis by (cases ps) (simp_all add: JSON_stringify_def)
qed simp_all

text \<open>The loop stops at the first field that holds a string or a structured value.\<close>

lemma scan_fields_find:
  "scan_fields r fs =
     (case find (\<lambda>field. textual (get_prop r field)) fs of
        None \<Rightarrow> ([], [])
      | Some field \<Rightarrow>
          (case get_prop r field of
             Some (JStr s) \<Rightarrow> (s, field)
           | Some v \<Rightarrow> (JSON_stringify v, field)
           | None \<Rightarrow> ([], [])))"
proof (induction fs)
  case Nil
  then show ?case by simp
next
  case (Cons field fs)
  show ?case
  proof (cases "get_prop r field")
    case None
    with Cons show ?thesis by simp
  next
    case (Some v)
    with Cons show ?thesis by (cases v) simp_all
  qed
qed

lemma extract_text_cases:
  "extract_text r =
     (case first_textual r of
        None \<Rightarrow> (JSON_stringify r, ''full_object'')
      | Some field \<Rightarrow>
          (case get_prop r field of
             Some (JStr s) \<Rightarrow> if s = [] then (JSON_stringify r, ''full_object'') else (s, field)
           | Some v \<Rightarrow> if structured v then (JSON_stringify v, field) else (JSON_stringify r, ''full_object'')
           | None \<Rightarrow> (JSON_stringify r, ''full_object'')))"
proof (cases "first_textual r")
  case None
  then show ?thesis
    by (simp add: extract_text_def scan_fields_find first_textual_def)
next
  case (Some field)
  then have t: "textual (get_prop r field)"
    by (auto simp: first_textual_def find_Some_iff)
  then obtain v where v: "get_prop r field = Some v" by (cases "get_prop r field") simp_all
  from t v show ?thesis
    using Some stringify_structured_not_empty [of v]
    by (cases v) (simp_all add: extract_text_def scan_fields_find first_textual_def)
qed

lemma normalize_mapping:
  "\<not> is_canonical (JObj ps) \<Longrightarrow>
   normalize_result (Some (JObj ps)) = text_result (fst (extract_text (JObj ps)))"
  by (simp add: normalize_result_def)

lemma pretty_foo_bar:
  "JSON_stringify (JObj [(''foo'', JStr ''bar'')]) =
     [CHR ''{'', CHR 0x0A, CHR '' '', CHR '' '', CHR 0x22, CHR ''f'', CHR ''o'', CHR ''o'', CHR 0x22,
      CHR '':'', CHR '' '', CHR 0x22, CHR ''b'', CHR ''a'', CHR ''r'', CHR 0x22, CHR 0x0A, CHR ''}'']"
  by (simp add: JSON_stringify_def quote_def quote_char_def)

text \<open>
  C4, as the code has it: for a reply that is a mapping and not canonical, the text is
  taken from the first field of the ordered list whose value is a string or a structured
  value; a field that is absent, null, a number or a boolean is passed over. A non-empty
  string is used verbatim, a structured value is pretty-printed, and when no field holds
  a string or a structured value the whole object is pretty-printed. In particular
  \<open>{"message": "hello"}\<close> gives the text \<open>hello\<close> and \<open>{"foo": "bar"}\<close> gives the
  pretty-printed object.
\<close>

theorem normalize_uses_first_textual_field:
  assumes "\<not> is_canonical (JObj ps)"
  shows "(first_textual (JObj ps) = None \<longrightarrow>
            normalize_result (Some (JObj ps)) = text_result (JSON_stringify (JObj ps)))
       \<and> (\<forall>field s. first_textual (JObj ps) = Some field \<and> get_prop (JObj ps) field = Some (JStr s)
              \<and> s \<noteq> [] \<longrightarrow>
            normalize_result (Some (JObj ps)) = text_result s)
       \<and> (\<forall>field v. first_textual (JObj ps) = Some field \<and> get_prop (JObj ps) field = Some v
              \<and> structured v \<longrightarrow>
            normalize_result (Some (JObj ps)) = text_result (JSON_stringify v))
       \<and> normalize_result (Some (JObj [(''message'', JStr ''hello'')])) = text_result ''hello''
       \<and> normalize_result (Some (JObj [(''foo'', JStr ''bar'')])) =
            text_result (JSON_stringify (JObj [(''foo'', JStr ''bar'')]))"
proof -
  have none: "first_textual (JObj ps) = None \<longrightarrow>
      normalize_result (Some (JObj ps)) = text_result (JSON_stringify (JObj ps))"
    using assms by (simp add: normalize_mapping extract_text_cases)
  have str: "\<forall>field s. first_textual (JObj ps) = Some field \<and> get_prop (JObj ps) field = Some (JStr s)
      \<and> s \<noteq> [] \<longrightarrow> normalize_result (Some (JObj ps)) = text_result s"
    using assms by (simp add: normalize_mapping extract_text_cases)
  have struct: "\<forall>field v. first_textual (JObj ps) = Some field \<and> get_prop (JObj ps) field = Some v
      \<and> structured v \<longrightarrow> normalize_result (Some (JObj ps)) = text_result (JSON_stringify v)"
  proof (intro allI impI)
    fix field v
    assume a: "first_textual (JObj ps) = Some field \<and> get_prop (JObj ps) field = Some v \<and> structured v"
    then show "normalize_result (Some (JObj ps)) = text_result (JSON_stringify v)"
      using assms by (cases v) (simp_all add: normalize_mapping extract_text_cases)
  qed
  have hello: "normalize_result (Some (JObj [(''message'', JStr ''hello'')])) = text_result ''hello''"
    by (simp add: normalize_result_def is_canonical_def extract_text_def textFields_def)
  have foo: "normalize_result (Some (JObj [(''foo'', JStr ''bar'')])) =
      text_result (JSON_stringify (JObj [(''foo'', JStr ''bar'')]))"
    by (simp add: normalize_result_def is_canonical_def extract_text_def textFields_def)
  from none str struct hello foo show ?thesis by blast
qed

theorem normalize_uses_first_textual_field_witness:
  "\<not> is_canonical (JObj [(''text'', JNum ''5''), (''data'', JArr [JNum ''1'']), (''message'', JStr ''hello'')])
   \<and> first_textual (JObj [(''text'', JNum ''5''), (''data'', JArr [JNum ''1'']), (''message'', JStr ''hello'')])
       = Some ''message''
   \<and> normalize_result (Some (JObj [(''text'', JNum ''5''), (''data'', JArr [JNum ''1'']), (''message'', JStr ''hello'')]))
       = text_result ''hello''
   \<and> first_textual (JObj [(''items'', JArr [])]) = None
   \<and> normalize_result (Some (JObj [(''items'', JArr [])])) = text_result (JSON_stringify (JObj [(''items'', JArr [])]))
   \<and> first_textual (JObj [(''data'', JArr [])]) = Some ''data''
   \<and> normalize_result (Some (JObj [(''data'', JArr [])])) = text_result ''[]''"
proof -
  let ?r = "JObj [(''text'', JNum ''5''), (''data'', JArr [JNum ''1'']), (''message'', JStr ''hello'')]"
  have c1: "\<not> is_canonical ?r" by (simp add: is_canonical_def)
  have f1: "first_textual ?r = Some ''message''" by (simp add: first_textual_def textFields_def)
  have g1: "get_prop ?r ''message'' = Some (JStr ''hello'')" by simp
  have c2: "\<not> is_canonical (JObj [(''items'', JArr [])])" by (simp add: is_canonical_def)
  have f2: "first_textual (JObj [(''items'', JArr [])]) = None"
    by (simp add: first_textual_def textFields_def)
  have c3: "\<not> is_canonical (JObj [(''data'', JArr [])])" by (simp add: is_canonical_def)
  have f3: "first_textual (JObj [(''data'', JArr [])]) = Some ''data''"
    by (simp add: first_textual_def textFields_def)
  have g3: "get_prop (JObj [(''data'', JArr [])]) ''data'' = Some (JArr [])" by simp
  have s3: "JSON_stringify (JArr []) = ''[]''" by (simp add: JSON_stringify_def)
  from normalize_uses_first_textual_field [OF c1] f1 g1
  have r1: "normalize_result (Some ?r) = text_result ''hello''" by simp
  from normalize_uses_first_textual_field [OF c2] f2
  have r2: "normalize_result (Some (JObj [(''items'', JArr [])])) =
      text_result (JSON_stringify (JObj [(''items'', JArr [])]))" by simp
  from normalize_uses_first_textual_field [OF c3] f3 g3
  have r3: "normalize_result (Some (JObj [(''data'', JArr [])])) = text_result (JSON_stringify (JArr []))"
    by simp
  from c1 f1 r1 f2 r2 f3 r3 s3 show ?thesis by simp
qed

text \<open>
  C4 as stated fails: in \<open>{"text": 5, "message": "hello"}\<close> the first field that is
  present with a non-null value is \<open>text\<close>, and the normalization uses \<open>message\<close>.
\<close>

theorem normalize_skips_scalar_field_counterexample:
  "first_present (JObj [(''text'', JNum ''5''), (''message'', JStr ''hello'')]) = Some ''text''
   \<and> extract_text (JObj [(''text'', JNum ''5''), (''message'', JStr ''hello'')]) = (''hello'', ''message'')
   \<and> normalize_result (Some (JObj [(''text'', JNum ''5''), (''message'', JStr ''hello'')])) =
       text_result ''hello''"
  by (simp add: first_present_def normalize_result_def is_canonical_def extract_text_def textFields_def)

text \<open>
  An empty string in the first field is not used either: the test \<open>if (!textContent)\<close>
  takes it for no field found and the whole object is printed.
\<close>

lemma normalize_empty_text_field:
  "normalize_result (Some (JObj [(''text'', JStr []), (''message'', JStr ''hello'')])) =
     text_result (JSON_stringify (JObj [(''text'', JStr []), (''message'', JStr ''hello'')]))"
  by (simp add: normalize_result_def is_canonical_def extract_text_def textFields_def)

text \<open>
  C5: normalizing the output of the normalization gives the same value, for every reply
  (absent, null, string, mapping, array, number, boolean, canonical envelope), and a
  value that already has a non-empty \<open>content\<close> array is returned unchanged.
\<close>

theorem normalize_idempotent:
  "normalize_result (Some (normalize_result x)) = normalize_result x
   \<and> (is_canonical r \<longrightarrow> normalize_result (Some r) = r)"
  using canonical_passes [OF normalize_result_canonical, of x] canonical_passes [of r]
  by simp

theorem normalize_idempotent_witness:
  "is_canonical (JObj [(''content'', JArr [JObj [(''type'', JStr ''text''), (''text'', JStr ''ok'')]]), (''isError'', JBool False)])
   \<and> normalize_result (Some (JObj [(''content'', JArr [JObj [(''type'', JStr ''text''), (''text'', JStr ''ok'')]]), (''isError'', JBool False)]))
       = JObj [(''content'', JArr [JObj [(''type'', JStr ''text''), (''text'', JStr ''ok'')]]), (''isError'', JBool False)]
   \<and> normalize_result (Some (normalize_result (Some (JObj [(''message'', JStr ''hello'')])))) =
       normalize_result (Some (JObj [(''message'', JStr ''hello'')]))"
proof -
  let ?r = "JObj [(''content'', JArr [JObj [(''type'', JStr ''text''), (''text'', JStr ''ok'')]]), (''isError'', JBool False)]"
  have c: "is_canonical ?r" by (simp add: is_canonical_def)
  from normalize_idempotent [of "Some (JObj [(''message'', JStr ''hello'')])" ?r] c
  show ?thesis by simp
qed


section \<open>Routing\<close>

text \<open>
  What \<open>split(':', 2)\<close> keeps of a qualified name: the server name, and the local name up
  to its first separator.
\<close>

lemma split_qualified_keeps:
  assumes "CHR '':'' \<notin> set sName"
  shows "split_qualified (sName @ CHR '':'' # localName) =
           (sName, takeWhile (\<lambda>c. c \<noteq> CHR '':'') localName)"
proof -
  obtain p ps where ps: "split (CHR '':'') localName = p # ps"
    using split_not_empty [of "CHR '':''" localName] by (cases "split (CHR '':'') localName") auto
  then have "p = takeWhile (\<lambda>c. c \<noteq> CHR '':'') localName"
    using hd_split_takeWhile [of "CHR '':''" localName] by simp
  with ps assms show ?thesis
    by (simp add: split_qualified_def split_limit_def split_at_first)
qed

lemma split_qualified_plain:
  "CHR '':'' \<notin> set sName \<Longrightarrow> CHR '':'' \<notin> set localName \<Longrightarrow>
   split_qualified (sName @ CHR '':'' # localName) = (sName, localName)"
  by (auto simp: split_qualified_keeps)

lemma wf_registry_empty: "wf_registry []"
  by (simp add: wf_registry_def)

lemma wf_registry_map_set:
  "wf_registry reg \<Longrightarrow> serverName conn = k \<Longrightarrow> wf_registry (map_set k conn reg)"
  using set_map_set [of k conn reg]
  by (auto simp: wf_registry_def distinct_map_set list_all_iff)

lemma wf_registry_connectToServer:
  "wf_registry reg \<Longrightarrow> connectToServer reg sName outcome = Inr reg' \<Longrightarrow> wf_registry reg'"
  by (cases outcome) (auto simp: connectToServer_def wf_registry_map_set)

lemma wf_registry_lookup:
  assumes "wf_registry reg" and "conn \<in> set (map snd reg)"
  shows "map_of reg (serverName conn) = Some conn"
proof -
  from assms(2) obtain k where k: "(k, conn) \<in> set reg" by auto
  with assms(1) have "serverName conn = k" by (auto simp: wf_registry_def list_all_iff)
  with k assms(1) show ?thesis by (simp add: wf_registry_def)
qed

lemma route_tool_qualified:
  assumes "map_of reg serverA = Some connA" and "active connA"
      and "CHR '':'' \<notin> set serverA" and "CHR '':'' \<notin> set toolX"
  shows "route_tool reg (serverA @ '':'' @ toolX) = Inr (connA, toolX)"
  using assms
  by (simp add: route_tool_def resolve_tool_def split_qualified_plain target_connection_def)

lemma route_tool_unqualified:
  assumes "wf_registry reg" and "CHR '':'' \<notin> set toolX"
  shows "route_tool reg toolX =
           (case find (\<lambda>conn. active conn \<and> list_ex (\<lambda>tool. name tool = toolX) (tools conn))
                   (map snd reg) of
              None \<Rightarrow> Inl (ToolNotFound toolX)
            | Some conn \<Rightarrow> Inr (conn, toolX))"
proof (cases "find (\<lambda>conn. active conn \<and> list_ex (\<lambda>tool. name tool = toolX) (tools conn)) (map snd reg)")
  case None
  with assms(2) show ?thesis by (simp add: route_tool_def resolve_tool_def)
next
  case (Some conn)
  then have "conn \<in> set (map snd reg)" and act: "active conn"
    by (auto simp: find_Some_iff)
  with assms(1) have "map_of reg (serverName conn) = Some conn"
    by (simp add: wf_registry_lookup)
  with Some act assms(2) show ?thesis
    by (simp add: route_tool_def resolve_tool_def target_connection_def)
qed

text \<open>
  Once the name is routed, \<open>callTool\<close> calls the client of that connection, once, with
  the routed name and the arguments it was given.
\<close>

lemma callTool_calls_routed:
  assumes "route_tool reg toolName = Inr (connection, actualToolName)"
  shows "client_calls (callTool reg cenv toolName params) =
           [(serverName connection, actualToolName, params)]"
  using assms
  by (simp add: callTool_def client_calls_def split: client_outcome.split prod.split)

lemma callTool_returns_reply:
  assumes "route_tool reg toolName = Inr (connection, actualToolName)"
      and "client_callTool cenv (serverName connection) actualToolName params = Returns reply"
  shows "fst (callTool reg cenv toolName params) = Some (Inr (normalize_result reply))"
  using assms by (simp add: callTool_def)

text \<open>
  The part of C6 that holds on the code. In a registry as \<open>connectToServer\<close> builds it,
  and for names without the separator: \<open>callTool\<close> with \<open>serverA:toolX\<close> calls the client
  of the connection registered for the active backend \<open>serverA\<close> with the name \<open>toolX\<close>,
  whatever the other backends define, and returns the normalized reply of that backend;
  with an unqualified name it calls the client of the first connection, in registration
  order, that is active and whose cached tool list contains the name; and when there is
  none it calls no client, returns the not-found error as its result and leaves the
  registry as it was.
\<close>

lemma callTool_dispatch_without_separator:
  assumes "wf_registry reg"
  shows "(\<forall>serverA toolX connA cenv params.
            map_of reg serverA = Some connA \<and> active connA
            \<and> CHR '':'' \<notin> set serverA \<and> CHR '':'' \<notin> set toolX \<longrightarrow>
            client_calls (callTool reg cenv (serverA @ '':'' @ toolX) params) = [(serverA, toolX, params)]
            \<and> (\<forall>reply. client_callTool cenv serverA toolX params = Returns reply \<longrightarrow>
                  fst (callTool reg cenv (serverA @ '':'' @ toolX) params) =
                    Some (Inr (normalize_result reply))))
       \<and> (\<forall>toolX conn cenv params. CHR '':'' \<notin> set toolX
            \<and> find (\<lambda>conn. active conn \<and> list_ex (\<lambda>tool. name tool = toolX) (tools conn))
                 (map snd reg) = Some conn \<longrightarrow>
            client_calls (callTool reg cenv toolX params) = [(serverName conn, toolX, params)])
       \<and> (\<forall>toolX cenv params. CHR '':'' \<notin> set toolX
            \<and> find (\<lambda>conn. active conn \<and> list_ex (\<lambda>tool. name tool = toolX) (tools conn))
                 (map snd reg) = None \<longrightarrow>
            callTool reg cenv toolX params = (Some (Inl (ToolNotFound toolX)), reg, []))"
proof (intro conjI allI impI)
  fix serverA toolX connA cenv params
  assume a: "map_of reg serverA = Some connA \<and> active connA
            \<and> CHR '':'' \<notin> set serverA \<and> CHR '':'' \<notin> set toolX"
  then have r: "route_tool reg (serverA @ '':'' @ toolX) = Inr (connA, toolX)"
    using route_tool_qualified [of reg serverA connA toolX] by simp
  from a have "connA \<in> set (map snd reg)"
    by (metis map_of_SomeD set_zip_rightD zip_map_fst_snd)
  with assms a have n: "serverName connA = serverA"
    using wf_registry_lookup [of reg connA] by (auto dest: map_of_SomeD simp: wf_registry_def list_all_iff)
  from callTool_calls_routed [OF r] n
  show "client_calls (callTool reg cenv (serverA @ '':'' @ toolX) params) = [(serverA, toolX, params)]"
    by simp
  fix reply
  assume "client_callTool cenv serverA toolX params = Returns reply"
  with n callTool_returns_reply [OF r, of cenv params reply]
  show "fst (callTool reg cenv (serverA @ '':'' @ toolX) params) = Some (Inr (normalize_result reply))"
    by simp
next
  fix toolX conn cenv params
  assume a: "CHR '':'' \<notin> set toolX
      \<and> find (\<lambda>conn. active conn \<and> list_ex (\<lambda>tool. name tool = toolX) (tools conn))
           (map snd reg) = Some conn"
  with assms have "route_tool reg toolX = Inr (conn, toolX)"
    by (simp add: route_tool_unqualified)
  from callTool_calls_routed [OF this]
  show "client_calls (callTool reg cenv toolX params) = [(serverName conn, toolX, params)]" .
next
  fix toolX cenv params
  assume a: "CHR '':'' \<notin> set toolX
      \<and> find (\<lambda>conn. active conn \<and> list_ex (\<lambda>tool. name tool = toolX) (tools conn))
           (map snd reg) = None"
  with assms have "route_tool reg toolX = Inl (ToolNotFound toolX)"
    by (simp add: route_tool_unqualified)
  then show "callTool reg cenv toolX params = (Some (Inl (ToolNotFound toolX)), reg, [])"
    by (simp add: callTool_def)
qed

lemma callTool_dispatch_two_backends:
  "callTool two_registry echo_env ''serverA:toolX'' (JObj []) =
     (Some (Inr (text_result ''serverA/toolX'')), two_registry, [(''serverA'', ''toolX'', JObj [])])
   \<and> callTool two_registry echo_env ''toolX'' (JObj []) =
     (Some (Inr (text_result ''serverB/toolX'')), two_registry, [(''serverB'', ''toolX'', JObj [])])
   \<and> callTool two_registry echo_env ''toolZ'' (JObj []) =
     (Some (Inl (ToolNotFound ''toolZ'')), two_registry, [])"
  by (simp add: callTool_def route_tool_def resolve_tool_def split_qualified_def split_limit_def
      target_connection_def two_registry_def connection_of_def echo_env_def normalize_result_def
      is_canonical_def)

text \<open>
  C6 fails on the code, by the defect of C2: \<open>serverA\<close> lists the tool \<open>tool:x\<close>, which the
  aggregation names \<open>serverA:tool:x\<close>; \<open>callTool\<close> with that qualified name calls the
  client of \<open>serverA\<close> with the name \<open>tool\<close>, which is not the tool of \<open>serverA\<close> that the
  name qualifies, and returns what the backend replies to that call.
\<close>

theorem qualified_call_reaches_other_tool:
  "map fullName (getUnifiedTools colon_registry) = [''serverB:tool'', ''serverA:tool:x'']
   \<and> callTool colon_registry echo_env ''serverA:tool:x'' (JObj []) =
       (Some (Inr (text_result ''serverA/tool'')), colon_registry, [(''serverA'', ''tool'', JObj [])])"
  by (simp add: getUnifiedTools_def callTool_def route_tool_def resolve_tool_def split_qualified_def
      split_limit_def target_connection_def colon_registry_def connection_of_def echo_env_def
      normalize_result_def is_canonical_def)

text \<open>
  C2 fails on the code: the backend \<open>fs\<close> lists the tool \<open>read:file\<close> and the resource
  \<open>file:///a.txt\<close>; the aggregation names them \<open>fs:read:file\<close> and \<open>fs:file:///a.txt\<close>,
  and a call with these names reaches \<open>fs\<close> with the local names \<open>read\<close> and \<open>file\<close>.
\<close>

theorem qualified_local_name_truncated:
  "map fullName (getUnifiedTools fs_registry) = [''fs:read:file'']
   \<and> route_tool fs_registry ''fs:read:file'' =
       Inr (connection_of ''fs'' True [''read:file''] [''file:///a.txt''], ''read'')
   \<and> map fullUri (getUnifiedResources fs_registry) = [''fs:file:///a.txt'']
   \<and> route_resource fs_registry ''fs:file:///a.txt'' =
       Inr (connection_of ''fs'' True [''read:file''] [''file:///a.txt''], ''file'')"
  by (simp add: getUnifiedTools_def getUnifiedResources_def fs_registry_def connection_of_def
      route_tool_def resolve_tool_def route_resource_def resolve_resource_def
      split_qualified_def split_limit_def target_connection_def)


section \<open>The schema-bypass recovery: the promise settles\<close>

text \<open>
  The only steps of the recovery that clear its timer also settle its promise.
\<close>

lemma map_has_append: "map_has (m @ [(k, v)]) k' = (map_has m k' \<or> k' = k)"
  by (auto simp: map_has_def)

lemma settle_settles: "map_has (promises (settle rid outcome st)) rid"
  by (simp add: settle_def map_has_append)

lemma settle_keeps: "map_has (promises st) k \<Longrightarrow> map_has (promises (settle rid outcome st)) k"
  by (simp add: settle_def map_has_append)

lemma settle_timers: "timers (settle rid outcome st) = timers st"
  by (simp add: settle_def)

lemma settle_onmessage: "onmessage (settle rid outcome st) = onmessage st"
  by (simp add: settle_def)

lemma armed_or_settled_settle:
  "armed_or_settled rid st \<Longrightarrow> armed_or_settled rid (settle rid' outcome st)"
  by (auto simp: armed_or_settled_def settle_timers settle_keeps)

lemma armed_or_settled_run_handler:
  "armed_or_settled rid st \<Longrightarrow> armed_or_settled rid (run_handler h response st)"
proof (induction h response st rule: run_handler.induct)
  case (1 response st)
  then show ?case by (simp add: armed_or_settled_def)
next
  case (2 rid' originalOnMessage response st)
  show ?case
  proof (cases "msg_id response = Some (NumId rid')")
    case True
    let ?st2 = "(clearTimeout rid' st)\<lparr>onmessage := originalOnMessage\<rparr>"
    have "armed_or_settled rid (settle rid' outcome ?st2)" for outcome
    proof (cases "rid' = rid")
      case True
      then show ?thesis by (simp add: armed_or_settled_def settle_settles)
    next
      case False
      with "2.prems" have "armed_or_settled rid ?st2"
        by (auto simp: armed_or_settled_def clearTimeout_def)
      then show ?thesis by (rule armed_or_settled_settle)
    qed
    with True show ?thesis by (simp add: Let_def split: option.split)
  next
    case False
    with 2 show ?thesis by (simp split: option.split)
  qed
qed

lemma armed_or_settled_receive:
  "armed_or_settled rid st \<Longrightarrow> armed_or_settled rid (receive response st)"
  by (simp add: receive_def armed_or_settled_run_handler split: option.split)

lemma armed_or_settled_messages:
  "armed_or_settled rid st \<Longrightarrow>
   armed_or_settled rid (foldl (\<lambda>s response. receive response s) st msgs)"
  by (induction msgs arbitrary: st) (simp_all add: armed_or_settled_receive)

lemma armed_or_settled_install:
  "armed_or_settled (req_id req) (install req sb st)"
  by (cases sb)
     (simp_all add: install_def Let_def armed_or_settled_def settle_settles)

lemma fire_timeout_settles:
  "armed_or_settled rid st \<Longrightarrow> map_has (promises (fire_timeout rid st)) rid"
  by (auto simp: fire_timeout_def armed_or_settled_def settle_settles)

text \<open>The promise of \<open>callToolDirectly\<close> is settled once the timer has fired or was cleared.\<close>

lemma callToolDirectly_settles:
  "\<exists>outcome. fst (callToolDirectly transport toolName params now sb msgs) = Some outcome"
proof (cases transport)
  case None
  then show ?thesis by (simp add: callToolDirectly_def)
next
  case (Some st)
  let ?req = "\<lparr>req_id = now, req_name = toolName, req_arguments = params\<rparr>"
  have "armed_or_settled now (install ?req sb st)"
    using armed_or_settled_install [of ?req sb st] by simp
  then have "armed_or_settled now (foldl (\<lambda>s response. receive response s) (install ?req sb st) msgs)"
    by (rule armed_or_settled_messages)
  then have "map_has (promises (fire_timeout now
      (foldl (\<lambda>s response. receive response s) (install ?req sb st) msgs))) now"
    by (rule fire_timeout_settles)
  with Some show ?thesis
    by (simp add: callToolDirectly_def Let_def map_has_def)
qed

text \<open>
  C8: when the call resolves to a connection, its client throws a ZodError with issues
  and the recovery does not resolve (its promise is rejected, by an error reply, by the
  timeout, or because the request could not be sent), \<open>callTool\<close> returns, and its
  result is the single text item that names the tool and carries the message of the
  validation error; no error is thrown.
\<close>

theorem recovery_failure_is_absorbed:
  assumes "route_tool reg toolName = Inr (connection, actualToolName)"
      and "client_callTool cenv (serverName connection) actualToolName params = Throws err"
      and "err_name err = ''ZodError''" and "err_issues err"
      and "\<forall>rawResult. fst (callToolDirectly (client_transport connection) actualToolName params
              (clock cenv) (sending cenv) (incoming cenv)) \<noteq> Some (Resolved rawResult)"
  shows "fst (callTool reg cenv toolName params) =
           Some (Inr (text_result
             (format_error_prefix @ actualToolName @ format_error_middle @ err_message err)))"
proof -
  let ?direct = "callToolDirectly (client_transport connection) actualToolName params
      (clock cenv) (sending cenv) (incoming cenv)"
  obtain outcome where o: "fst ?direct = Some outcome"
    using callToolDirectly_settles by blast
  with assms(5) obtain reason where r: "outcome = Rejected reason"
    by (cases outcome) auto
  obtain transport' where d: "?direct = (Some (Rejected reason), transport')"
    using o r by (cases ?direct) simp
  show ?thesis
    using assms(1-4) d by (simp add: callTool_def)
qed

lemma direct_timeout_idle:
  "callToolDirectly (Some idle_transport) ''toolX'' (JObj []) 1700000000000 SendOk [] =
     (Some (Rejected Timeout),
      Some \<lparr>onmessage = Some (Interceptor 1700000000000 (Some Protocol)), delivered = [],
            sent = [\<lparr>req_id = 1700000000000, req_name = ''toolX'', req_arguments = JObj []\<rparr>],
            timers = [], promises = [(1700000000000, Rejected Timeout)]\<rparr>)"
  by (simp add: callToolDirectly_def idle_transport_def install_def Let_def map_delete_def
      fire_timeout_def settle_def map_has_def)

theorem recovery_failure_is_absorbed_witness:
  "route_tool two_registry ''serverA:toolX'' = Inr (connection_of ''serverA'' True [''toolX''] [], ''toolX'')
   \<and> fst (callToolDirectly (client_transport (connection_of ''serverA'' True [''toolX''] [])) ''toolX''
            (JObj []) (clock zod_env) (sending zod_env) (incoming zod_env)) = Some (Rejected Timeout)
   \<and> fst (callTool two_registry zod_env ''serverA:toolX'' (JObj [])) =
       Some (Inr (text_result (format_error_prefix @ ''toolX'' @ format_error_middle @ ''invalid_type'')))"
proof -
  let ?conn = "connection_of ''serverA'' True [''toolX''] []"
  have h1: "route_tool two_registry ''serverA:toolX'' = Inr (?conn, ''toolX'')"
    by (simp add: route_tool_def resolve_tool_def split_qualified_def split_limit_def
        target_connection_def two_registry_def connection_of_def)
  have h2: "client_callTool zod_env (serverName ?conn) ''toolX'' (JObj []) =
      Throws \<lparr>err_name = ''ZodError'', err_message = ''invalid_type'', err_issues = True\<rparr>"
    by (simp add: zod_env_def)
  have d: "fst (callToolDirectly (client_transport ?conn) ''toolX'' (JObj [])
      (clock zod_env) (sending zod_env) (incoming zod_env)) = Some (Rejected Timeout)"
    by (simp add: zod_env_def connection_of_def direct_timeout_idle)
  then have h5: "\<forall>rawResult. fst (callToolDirectly (client_transport ?conn) ''toolX'' (JObj [])
      (clock zod_env) (sending zod_env) (incoming zod_env)) \<noteq> Some (Resolved rawResult)"
    by simp
  from recovery_failure_is_absorbed [OF h1 h2 _ _ h5] h1 d show ?thesis by simp
qed

text \<open>
  Whatever the transport held before: when no message arrives, the recovery is rejected
  by its timer and the transport keeps the interceptor as its handler.
\<close>

lemma timeout_keeps_interceptor:
  "\<exists>st'. callToolDirectly (Some st) toolName params now SendOk [] =
           (Some (Rejected Timeout), Some st')
         \<and> onmessage st' = Some (Interceptor now (onmessage st))"
  using map_has_map_delete [of now "promises st"]
  by (simp add: callToolDirectly_def install_def Let_def fire_timeout_def settle_def map_has_def
      map_add_def)

text \<open>An error reply with the id of the recovery rejects it with the reply's message.\<close>

lemma direct_error_reply_idle:
  "fst (callToolDirectly (Some idle_transport) ''toolX'' (JObj []) 1700000000000 SendOk
          [\<lparr>msg_id = Some (NumId 1700000000000), msg_error = Some (Some ''boom''),
            msg_result = None\<rparr>]) =
     Some (Rejected (ErrorReply ''boom''))"
  by (simp add: callToolDirectly_def idle_transport_def install_def Let_def map_delete_def
      fire_timeout_def settle_def map_has_def receive_def clearTimeout_def)

text \<open>
  C1 fails on the code: a recovery on a transport that holds the protocol client's
  handler, to which no reply arrives, is rejected by the timer, and the transport is
  left with the interceptor of the recovery as its handler, not with the handler that was
  installed before. A reply with the id of the recovery that arrives after the timeout
  is taken by the interceptor and does not reach the protocol client's handler; a
  message with another id does reach it.
\<close>

theorem timeout_leaves_interceptor:
  "callToolDirectly (Some idle_transport) ''toolX'' (JObj []) 1700000000000 SendOk [] =
     (Some (Rejected Timeout), Some timed_out_transport)
   \<and> onmessage idle_transport = Some Protocol
   \<and> onmessage timed_out_transport = Some (Interceptor 1700000000000 (Some Protocol))
   \<and> delivered (receive late_reply timed_out_transport) = []
   \<and> delivered (receive other_reply timed_out_transport) = [other_reply]"
proof -
  have "onmessage idle_transport = Some Protocol"
    by (simp add: idle_transport_def)
  moreover have "delivered (receive late_reply timed_out_transport) = []"
    by (simp add: timed_out_transport_def receive_def late_reply_def clearTimeout_def
        settle_def map_has_def Let_def)
  moreover have "delivered (receive other_reply timed_out_transport) = [other_reply]"
    by (simp add: timed_out_transport_def receive_def other_reply_def)
  ultimately show ?thesis
    by (simp add: direct_timeout_idle) (simp add: timed_out_transport_def)
qed


section \<open>Connecting the backends: isolation of failures\<close>

lemma map_of_attempt:
  "map_of (attempt behaviour reg (sName, cfg)) =
     (case registered sName (behaviour sName cfg) of
        None \<Rightarrow> map_of reg
      | Some conn \<Rightarrow> (map_of reg)(sName \<mapsto> conn))"
  by (cases "behaviour sName cfg")
     (simp_all add: attempt_def connectToServer_def registered_def map_of_map_set)

lemma keys_attempt:
  "fst ` set (attempt behaviour reg entry) \<subseteq> insert (fst entry) (fst ` set reg)"
  by (cases "behaviour (fst entry) (snd entry)")
     (auto simp: attempt_def connectToServer_def keys_map_set)

lemma map_of_attempts:
  "distinct (map fst entries) \<Longrightarrow>
   map_of (foldl (attempt behaviour) reg entries) sName =
     (case map_of entries sName of
        None \<Rightarrow> map_of reg sName
      | Some cfg \<Rightarrow>
          (case registered sName (behaviour sName cfg) of
             None \<Rightarrow> map_of reg sName
           | Some conn \<Rightarrow> Some conn))"
proof (induction entries arbitrary: reg)
  case Nil
  then show ?case by simp
next
  case (Cons entry entries)
  obtain s cfg where entry: "entry = (s, cfg)" by (cases entry)
  from Cons.prems entry have d: "distinct (map fst entries)" and fresh: "map_of entries s = None"
    by (auto simp: map_of_eq_None_iff)
  have "map_of (foldl (attempt behaviour) (attempt behaviour reg entry) entries) sName =
     (case map_of entries sName of
        None \<Rightarrow> map_of (attempt behaviour reg entry) sName
      | Some cfg \<Rightarrow>
          (case registered sName (behaviour sName cfg) of
             None \<Rightarrow> map_of (attempt behaviour reg entry) sName
           | Some conn \<Rightarrow> Some conn))"
    by (rule Cons.IH [OF d])
  then show ?case
    using fresh by (auto simp: entry map_of_attempt split: option.split)
qed

lemma keys_attempts:
  "fst ` set (foldl (attempt behaviour) reg entries) \<subseteq> fst ` set reg \<union> fst ` set entries"
proof (induction entries arbitrary: reg)
  case Nil
  then show ?case by simp
next
  case (Cons entry entries)
  from Cons.IH [of "attempt behaviour reg entry"] keys_attempt [of behaviour reg entry]
  show ?case by auto
qed

lemma distinct_map_insort_key:
  "distinct (map g (insort_key f x xs)) = (g x \<notin> g ` set xs \<and> distinct (map g xs))"
  by (induction xs) (auto simp: set_insort_key)

lemma distinct_map_sort_key: "distinct (map g (sort_key f xs)) = distinct (map g xs)"
  by (induction xs) (simp_all add: distinct_map_insort_key)

lemma completion_order_set: "set (completion_order finish hamaServers) = set hamaServers"
  by (simp add: completion_order_def)

lemma completion_order_distinct:
  "distinct (map fst hamaServers) \<Longrightarrow> distinct (map fst (completion_order finish hamaServers))"
  by (simp add: completion_order_def distinct_map_sort_key)

text \<open>
  C7: with the configuration loaded and the registry empty, as at start-up, and for every
  behaviour of the backends and every order in which the attempts complete,
  \<open>connectAllServers\<close> returns normally; a configured backend whose connect fails has no
  entry in the resulting registry, every configured backend whose connect succeeds is
  registered under its name and active, and nothing else is registered.
\<close>

theorem connectAllServers_isolates_failures:
  assumes "distinct (map fst hamaServers)"
  shows "\<exists>reg. connectAllServers (Some hamaServers) behaviour finish [] = Inr reg
           \<and> (\<forall>sName cfg. (sName, cfg) \<in> set hamaServers \<longrightarrow>
                 (behaviour sName cfg = ConnectFails \<longrightarrow> map_of reg sName = None)
               \<and> (behaviour sName cfg \<noteq> ConnectFails \<longrightarrow>
                    (\<exists>conn. map_of reg sName = Some conn \<and> active conn \<and> serverName conn = sName)))
           \<and> fst ` set reg \<subseteq> fst ` set hamaServers"
proof -
  let ?order = "completion_order finish hamaServers"
  let ?reg = "foldl (attempt behaviour) [] ?order"
  have d: "distinct (map fst ?order)"
    using assms by (rule completion_order_distinct)
  have each: "(behaviour sName cfg = ConnectFails \<longrightarrow> map_of ?reg sName = None)
      \<and> (behaviour sName cfg \<noteq> ConnectFails \<longrightarrow>
           (\<exists>conn. map_of ?reg sName = Some conn \<and> active conn \<and> serverName conn = sName))"
    if "(sName, cfg) \<in> set hamaServers" for sName cfg
  proof -
    from that have "(sName, cfg) \<in> set ?order" by (simp add: completion_order_set)
    with d have "map_of ?order sName = Some cfg" by simp
    then show ?thesis
      by (cases "behaviour sName cfg") (simp_all add: map_of_attempts [OF d] registered_def)
  qed
  have "fst ` set ?reg \<subseteq> fst ` set hamaServers"
    using keys_attempts [of behaviour "[]" ?order] by (simp add: completion_order_set)
  with each show ?thesis
    by (simp add: connectAllServers_def)
qed

theorem connectAllServers_isolates_failures_witness:
  "distinct (map fst two_servers)
   \<and> two_behaviour ''bad'' broken = ConnectFails
   \<and> connectAllServers (Some two_servers) two_behaviour (\<lambda>s. 0) [] =
       Inr [(''good'', \<lparr>serverName = ''good'', client_transport = Some idle_transport, active = True,
                        tools = [\<lparr>name = ''get_transcript''\<rparr>], prompts = [], resources = []\<rparr>)]
   \<and> (\<exists>reg. connectAllServers (Some two_servers) two_behaviour (\<lambda>s. 0) [] = Inr reg
         \<and> map_of reg ''bad'' = None
         \<and> (\<exists>conn. map_of reg ''good'' = Some conn \<and> active conn \<and> serverName conn = ''good''))"
proof -
  have d: "distinct (map fst two_servers)" by (simp add: two_servers_def)
  have bad: "(''bad'', broken) \<in> set two_servers" "two_behaviour ''bad'' broken = ConnectFails"
    by (simp_all add: two_servers_def two_behaviour_def broken_def)
  have good: "(''good'', npx) \<in> set two_servers" "two_behaviour ''good'' npx \<noteq> ConnectFails"
    by (simp_all add: two_servers_def two_behaviour_def npx_def)
  have run: "connectAllServers (Some two_servers) two_behaviour (\<lambda>s. 0) [] =
       Inr [(''good'', \<lparr>serverName = ''good'', client_transport = Some idle_transport, active = True,
                        tools = [\<lparr>name = ''get_transcript''\<rparr>], prompts = [], resources = []\<rparr>)]"
    by (simp add: connectAllServers_def completion_order_def two_servers_def attempt_def
        connectToServer_def two_behaviour_def broken_def npx_def or_empty_def)
  from connectAllServers_isolates_failures [OF d, of two_behaviour "\<lambda>s. 0"] bad good
  have "\<exists>reg. connectAllServers (Some two_servers) two_behaviour (\<lambda>s. 0) [] = Inr reg
         \<and> map_of reg ''bad'' = None
         \<and> (\<exists>conn. map_of reg ''good'' = Some conn \<and> active conn \<and> serverName conn = ''good'')"
    by blast
  with d bad(2) run show ?thesis by blast
qed


section \<open>Closing a session twice\<close>




end
